theory Spec2Isabelle
  imports
    Complex_Main
    "HOL-Library.AList"
    "HOL-Library.Sublist"
    "HOL-Library.Char_ord"
    "HOL-Library.List_Lexorder"
begin

section \<open>The scenario validator of the database decommissioning test repository\<close>

text \<open>
  The repository holds two versions of the script \<^verbatim>\<open>test_scenarios_validation.py\<close>, each
  written out as a string by a generator: \<^verbatim>\<open>src/script_11.py\<close> (the earlier one) and
  \<^verbatim>\<open>src/script_12.py\<close> (the later one, which overwrites the file the earlier one wrote).
  Both define the class \<^verbatim>\<open>DatabaseScenarioValidator\<close>. The later version is embedded
  whole; of the earlier version the checks that the later one lacks or decides differently
  are embedded as well.

  The validator reads the file system under \<^verbatim>\<open>repo_root\<close> and appends to the list
  \<^verbatim>\<open>self.results\<close>. Here the file system is an explicit argument, the result list is
  passed in and returned, every exception the code can raise is a value, and console
  output is left out.
\<close>

subsection \<open>Data model\<close>

datatype ScenarioType = CONFIG_ONLY | MIXED | LOGIC_HEAVY

datatype ViolationType = CRITICAL | WARNING | INFO

datatype error = ValueError | KeyError | ReadError string

text \<open>The \<^verbatim>\<open>.value\<close> of a scenario, and the enumeration constructor
  \<^verbatim>\<open>ScenarioType(scenario_str)\<close>, which raises \<^verbatim>\<open>ValueError\<close> on any other string.\<close>

fun ScenarioType_value :: "ScenarioType \<Rightarrow> string" where
  "ScenarioType_value CONFIG_ONLY = ''CONFIG_ONLY''"
| "ScenarioType_value MIXED = ''MIXED''"
| "ScenarioType_value LOGIC_HEAVY = ''LOGIC_HEAVY''"

definition ScenarioType_of :: "string \<Rightarrow> error + ScenarioType" where
  "ScenarioType_of s =
     (if s = ''CONFIG_ONLY'' then Inr CONFIG_ONLY
      else if s = ''MIXED'' then Inr MIXED
      else if s = ''LOGIC_HEAVY'' then Inr LOGIC_HEAVY
      else Inl ValueError)"

text \<open>The dataclass \<^verbatim>\<open>ValidationResult\<close>. The status is a plain string in the code
  (\<^verbatim>\<open>status: str  # PASS, FAIL, WARNING\<close>), and stays one here.\<close>

record ValidationResult =
  database :: string
  scenario :: ScenarioType
  check_name :: string
  status :: string
  violation_type :: ViolationType
  message :: string
  details :: "string list"
  file_references :: "string list"

text \<open>
  What a run reads from outside. Paths are strings relative to \<^verbatim>\<open>repo_root\<close>.
  \<^item> \<open>path_exists p\<close>: \<^verbatim>\<open>(repo_root / p).exists()\<close>;
  \<^item> \<open>rglob_py d\<close>: the files \<^verbatim>\<open>(repo_root / d).rglob("*.py")\<close> yields, in the order it
    yields them;
  \<^item> \<open>glob pat\<close>: \<^verbatim>\<open>list(repo_root.glob(pat))\<close>, in its order;
  \<^item> \<open>read_text p\<close>: \<^verbatim>\<open>p.read_text(...)\<close>, \<open>Inr\<close> the content or \<open>Inl\<close> the text of
    the exception it raises;
  \<^item> \<open>required_as_written\<close>: the set literal \<^verbatim>\<open>{"business_logic", "analytics"}\<close> is
    iterated in an order that depends on the interpreter's string hashing; \<open>True\<close> stands
    for the order as written, \<open>False\<close> for the other one.
\<close>

record repo =
  path_exists :: "string \<Rightarrow> bool"
  rglob_py :: "string \<Rightarrow> string list"
  glob :: "string \<Rightarrow> string list"
  read_text :: "string \<Rightarrow> string + string"
  required_as_written :: bool

subsection \<open>Strings\<close>

text \<open>\<^verbatim>\<open>needle in haystack\<close> on strings: containment as a contiguous substring.\<close>

fun contains :: "string \<Rightarrow> string \<Rightarrow> bool" where
  "contains needle [] = (needle = [])"
| "contains needle (c # cs) = (prefix needle (c # cs) \<or> contains needle cs)"

text \<open>\<^verbatim>\<open>str.lower()\<close>. Text is a list of 8-bit characters here, and lowering acts on
  the letters A to Z.\<close>

definition lower_char :: "char \<Rightarrow> char" where
  "lower_char c =
     (case map_of (zip ''ABCDEFGHIJKLMNOPQRSTUVWXYZ'' ''abcdefghijklmnopqrstuvwxyz'') c of
        None \<Rightarrow> c
      | Some l \<Rightarrow> l)"

definition lower :: "string \<Rightarrow> string" where
  "lower s = map lower_char s"

text \<open>The text an f-string gives for a list of strings, \<^verbatim>\<open>['a', 'b']\<close>: exact for
  strings without quotes, backslashes and control characters, which is what the category
  names and the monitoring keywords are.\<close>

fun join_commas :: "string list \<Rightarrow> string" where
  "join_commas [] = []"
| "join_commas [x] = x"
| "join_commas (x # y # ys) = x @ '', '' @ join_commas (y # ys)"

definition repr_list :: "string list \<Rightarrow> string" where
  "repr_list xs = ''['' @ join_commas (map (\<lambda>s. [CHR 0x27] @ s @ [CHR 0x27]) xs) @ '']''"

subsection \<open>The result list\<close>

text \<open>\<^verbatim>\<open>_add_result\<close>: builds the record and appends it to \<^verbatim>\<open>self.results\<close>.\<close>

definition add_result ::
  "ValidationResult list \<Rightarrow> string \<Rightarrow> ScenarioType \<Rightarrow> string \<Rightarrow> string \<Rightarrow> ViolationType
     \<Rightarrow> string \<Rightarrow> string list \<Rightarrow> string list \<Rightarrow> ValidationResult list" where
  "add_result results db sc name st vt msg dets file_refs =
     results @
     [\<lparr>database = db, scenario = sc, check_name = name, status = st,
       violation_type = vt, message = msg, details = dets, file_references = file_refs\<rparr>]"

subsection \<open>Scanning the application code (\<^verbatim>\<open>_validate_scenario_separation\<close>, first half)\<close>

definition app_code_files :: "(string \<times> string) list" where
  "app_code_files =
     [(''src/config/'', ''configuration''),
      (''src/services/'', ''service_layer''),
      (''src/business/'', ''business_logic''),
      (''src/analytics/'', ''analytics'')]"

text \<open>The dictionary \<^verbatim>\<open>found_references\<close> keeps its keys in insertion order, which the
  messages show: an association list, updated in place or extended at the end.
  \<open>record_reference\<close> is the body of the \<^verbatim>\<open>if database in content\<close>.\<close>

type_synonym references = "(string \<times> string list) list"

definition record_reference :: "references \<Rightarrow> string \<Rightarrow> string \<Rightarrow> references" where
  "record_reference found code_type py_file =
     (let found1 = (if map_of found code_type = None
                    then AList.update code_type [] found else found)
      in case map_of found1 code_type of
           None \<Rightarrow> found1
         | Some files \<Rightarrow> AList.update code_type (files @ [py_file]) found1)"

text \<open>The inner loop over the files of one directory. A file whose reading raises is
  skipped (\<^verbatim>\<open>except Exception: pass\<close>).\<close>

fun scan_files :: "repo \<Rightarrow> string \<Rightarrow> string \<Rightarrow> string list \<Rightarrow> references \<Rightarrow> references" where
  "scan_files fs db code_type [] found = found"
| "scan_files fs db code_type (py_file # rest) found =
     (case read_text fs py_file of
        Inl _ \<Rightarrow> scan_files fs db code_type rest found
      | Inr content \<Rightarrow>
          if contains db content
          then scan_files fs db code_type rest (record_reference found code_type py_file)
          else scan_files fs db code_type rest found)"

text \<open>The outer loop over the directories.\<close>

fun scan_dirs :: "repo \<Rightarrow> string \<Rightarrow> (string \<times> string) list \<Rightarrow> references \<Rightarrow> references" where
  "scan_dirs fs db [] found = found"
| "scan_dirs fs db ((dir_path, code_type) # rest) found =
     scan_dirs fs db rest
       (if path_exists fs dir_path
        then scan_files fs db code_type (rglob_py fs dir_path) found
        else found)"

definition found_references :: "repo \<Rightarrow> string \<Rightarrow> references" where
  "found_references fs db = scan_dirs fs db app_code_files []"

subsection \<open>The separation rules (\<^verbatim>\<open>_validate_scenario_separation\<close>, second half)\<close>

definition allowed_types :: "string list" where
  "allowed_types = [''configuration'', ''service_layer'']"

definition forbidden_types :: "string list" where
  "forbidden_types = [''business_logic'', ''analytics'']"

definition required_types :: "repo \<Rightarrow> string list" where
  "required_types fs =
     (if required_as_written fs then [''business_logic'', ''analytics'']
      else [''analytics'', ''business_logic''])"

text \<open>\<^verbatim>\<open>sum([found_references[v] for v in violations], [])\<close>; every \<open>v\<close> is a key, so the
  lookup cannot fail.\<close>

definition files_of :: "references \<Rightarrow> string list \<Rightarrow> string list" where
  "files_of found keys =
     concat (map (\<lambda>v. case map_of found v of None \<Rightarrow> [] | Some files \<Rightarrow> files) keys)"

definition separation_rules ::
  "repo \<Rightarrow> references \<Rightarrow> ValidationResult list \<Rightarrow> string \<Rightarrow> ScenarioType
     \<Rightarrow> ValidationResult list" where
  "separation_rules fs found results db scenario_type =
     (case scenario_type of
        CONFIG_ONLY \<Rightarrow>
          if found \<noteq> []
          then add_result results db scenario_type ''config_only_purity'' ''FAIL'' CRITICAL
                 ''Config-only database has application code references''
                 [''Found in: '' @ repr_list (map fst found)]
                 (concat (map snd found))
          else add_result results db scenario_type ''config_only_purity'' ''PASS'' INFO
                 ''No application code references (correct)'' [] []
      | MIXED \<Rightarrow>
          (let violations = filter (\<lambda>t. t \<in> set forbidden_types) (map fst found) in
           if violations \<noteq> []
           then add_result results db scenario_type ''mixed_scenario_rules'' ''FAIL'' CRITICAL
                  ''Mixed scenario has forbidden business logic''
                  [''Found forbidden: '' @ repr_list violations]
                  (files_of found violations)
           else
             (let has_allowed = list_ex (\<lambda>t. t \<in> set (map fst found)) allowed_types in
              if has_allowed
              then add_result results db scenario_type ''mixed_scenario_rules'' ''PASS'' INFO
                     ''Mixed scenario properly implemented''
                     [''Found allowed: '' @ repr_list (map fst found)] []
              else add_result results db scenario_type ''mixed_scenario_rules'' ''WARNING''
                     WARNING ''Mixed scenario has no service layer''
                     [''Should have configuration and service references''] []))
      | LOGIC_HEAVY \<Rightarrow>
          (let missing_types =
                 filter (\<lambda>t. t \<notin> set (map fst found)) (required_types fs) in
           if missing_types \<noteq> []
           then add_result results db scenario_type ''logic_heavy_complexity'' ''WARNING''
                  WARNING ''Logic-heavy scenario missing complex logic''
                  [''Missing: '' @ repr_list missing_types] []
           else add_result results db scenario_type ''logic_heavy_complexity'' ''PASS'' INFO
                  ''Logic-heavy scenario properly implemented''
                  [''Found: '' @ repr_list (map fst found)] []))"

definition validate_scenario_separation ::
  "repo \<Rightarrow> ValidationResult list \<Rightarrow> string \<Rightarrow> ScenarioType \<Rightarrow> ValidationResult list" where
  "validate_scenario_separation fs results db scenario_type =
     separation_rules fs (found_references fs db) results db scenario_type"

subsection \<open>Infrastructure files (\<^verbatim>\<open>_validate_infrastructure_files\<close>)\<close>

definition terraform_patterns :: "string list" where
  "terraform_patterns =
     [''terraform_*_databases.tf'',
      ''terraform_*_critical_databases.tf'',
      ''terraform_module_*.tf'']"

text \<open>The two nested loops that set \<^verbatim>\<open>terraform_found\<close>, each left by \<^verbatim>\<open>break\<close> at the
  first file that mentions the database; an unreadable file is skipped.\<close>

fun terraform_in_files :: "repo \<Rightarrow> string \<Rightarrow> string list \<Rightarrow> bool" where
  "terraform_in_files fs db [] = False"
| "terraform_in_files fs db (tf_file # rest) =
     (case read_text fs tf_file of
        Inl _ \<Rightarrow> terraform_in_files fs db rest
      | Inr content \<Rightarrow> if contains db content then True else terraform_in_files fs db rest)"

fun terraform_in_patterns :: "repo \<Rightarrow> string \<Rightarrow> string list \<Rightarrow> bool" where
  "terraform_in_patterns fs db [] = False"
| "terraform_in_patterns fs db (pattern # rest) =
     (if terraform_in_files fs db (glob fs pattern) then True
      else terraform_in_patterns fs db rest)"

definition terraform_found :: "repo \<Rightarrow> string \<Rightarrow> bool" where
  "terraform_found fs db = terraform_in_patterns fs db terraform_patterns"

definition validate_infrastructure_files ::
  "repo \<Rightarrow> ValidationResult list \<Rightarrow> string \<Rightarrow> ScenarioType \<Rightarrow> ValidationResult list" where
  "validate_infrastructure_files fs results db scenario_type =
     (let results1 =
            (if terraform_found fs db
             then add_result results db scenario_type ''terraform_config'' ''PASS'' INFO
                    ''Terraform configuration found'' [] []
             else add_result results db scenario_type ''terraform_config'' ''FAIL'' CRITICAL
                    ''No Terraform configuration found'' [] []);
          helm_pattern = ''helm_values_'' @ db @ ''.yaml'';
          helm_files = glob fs helm_pattern
      in if helm_files \<noteq> []
         then add_result results1 db scenario_type ''helm_config'' ''PASS'' INFO
                ''Helm configuration found'' [] []
         else add_result results1 db scenario_type ''helm_config'' ''WARNING'' WARNING
                ''No Helm configuration found'' [] [])"

subsection \<open>Monitoring (\<^verbatim>\<open>_validate_monitoring_setup\<close>)\<close>

definition validate_monitoring_setup ::
  "repo \<Rightarrow> ValidationResult list \<Rightarrow> string \<Rightarrow> ScenarioType \<Rightarrow> ValidationResult list" where
  "validate_monitoring_setup fs results db scenario_type =
     (let monitor_pattern = ''datadog_monitor_'' @ db @ ''.yaml'';
          monitor_files = glob fs monitor_pattern
      in case monitor_files of
           [] \<Rightarrow>
             add_result results db scenario_type ''monitoring_config'' ''FAIL'' CRITICAL
               ''No monitoring configuration found'' [] []
         | monitor_file # _ \<Rightarrow>
             (case read_text fs monitor_file of
                Inl e \<Rightarrow>
                  add_result results db scenario_type ''monitoring_config'' ''WARNING'' WARNING
                    (''Error reading monitor config: '' @ e) [] []
              | Inr content \<Rightarrow>
                  (let required_elements =
                         [ScenarioType_value scenario_type, ''threshold'', ''alert'',
                          ''database_name''];
                       missing = filter (\<lambda>elem. \<not> contains (lower elem) (lower content))
                                   required_elements
                   in if missing \<noteq> []
                      then add_result results db scenario_type ''monitoring_config''
                             ''WARNING'' WARNING ''Monitoring config incomplete''
                             [''Missing: '' @ repr_list missing] [monitor_file]
                      else add_result results db scenario_type ''monitoring_config''
                             ''PASS'' INFO ''Monitoring properly configured''
                             [] [monitor_file])))"

subsection \<open>The report (\<^verbatim>\<open>_generate_report\<close>) and the run\<close>

text \<open>The counting loop \<^verbatim>\<open>status_counts[result.status] += 1\<close> over a dictionary with the
  three keys PASS, FAIL and WARNING: any other status raises \<^verbatim>\<open>KeyError\<close>.\<close>

fun count_statuses ::
  "(string \<times> nat) list \<Rightarrow> ValidationResult list \<Rightarrow> error + (string \<times> nat) list" where
  "count_statuses status_counts [] = Inr status_counts"
| "count_statuses status_counts (r # rest) =
     (case map_of status_counts (status r) of
        None \<Rightarrow> Inl KeyError
      | Some n \<Rightarrow> count_statuses (AList.update (status r) (n + 1) status_counts) rest)"

definition critical_failures :: "ValidationResult list \<Rightarrow> ValidationResult list" where
  "critical_failures results =
     filter (\<lambda>r. status r = ''FAIL'' \<and> violation_type r = CRITICAL) results"

text \<open>\<^verbatim>\<open>overall_compliance\<close>, a percentage; the code computes it in floating point and
  prints it with one decimal, here it is the exact quotient.\<close>

definition overall_compliance ::
  "(string \<times> nat) list \<Rightarrow> ValidationResult list \<Rightarrow> error + rat" where
  "overall_compliance status_counts results =
     (if results \<noteq> []
      then (case map_of status_counts ''PASS'' of
              None \<Rightarrow> Inl KeyError
            | Some p \<Rightarrow> Inr (of_nat p / of_nat (length results) * 100))
      else Inr 0)"

text \<open>The report returns whether the run succeeded. Writing
  \<^verbatim>\<open>validation_results.json\<close> is wrapped in a \<^verbatim>\<open>try\<close> of its own and changes neither
  the results nor the return value; it is left out.\<close>

definition generate_report :: "ValidationResult list \<Rightarrow> error + bool" where
  "generate_report results =
     (case count_statuses [(''PASS'', 0), (''FAIL'', 0), (''WARNING'', 0)] results of
        Inl e \<Rightarrow> Inl e
      | Inr status_counts \<Rightarrow>
          (case overall_compliance status_counts results of
             Inl e \<Rightarrow> Inl e
           | Inr _ \<Rightarrow> if critical_failures results \<noteq> [] then Inr False else Inr True))"

text \<open>The table \<^verbatim>\<open>self.scenarios\<close>: database, then scenario, criticality and owner.\<close>

definition scenarios :: "(string \<times> string \<times> string \<times> string) list" where
  "scenarios =
     [(''periodic_table'', ''CONFIG_ONLY'', ''LOW'', ''chemistry-team@company.com''),
      (''world_happiness'', ''CONFIG_ONLY'', ''LOW'', ''analytics-team@company.com''),
      (''titanic'', ''CONFIG_ONLY'', ''LOW'', ''data-science-team@company.com''),
      (''pagila'', ''MIXED'', ''MEDIUM'', ''development-team@company.com''),
      (''chinook'', ''MIXED'', ''MEDIUM'', ''media-team@company.com''),
      (''netflix'', ''MIXED'', ''MEDIUM'', ''content-team@company.com''),
      (''employees'', ''LOGIC_HEAVY'', ''CRITICAL'', ''hr-team@company.com''),
      (''lego'', ''LOGIC_HEAVY'', ''CRITICAL'', ''analytics-team@company.com''),
      (''postgres_air'', ''LOGIC_HEAVY'', ''CRITICAL'', ''operations-team@company.com'')]"

text \<open>The three checks the loop of \<^verbatim>\<open>validate_all_scenarios\<close> runs for one database.\<close>

definition validate_database ::
  "repo \<Rightarrow> ValidationResult list \<Rightarrow> string \<Rightarrow> ScenarioType \<Rightarrow> ValidationResult list" where
  "validate_database fs results db scenario_type =
     validate_monitoring_setup fs
       (validate_infrastructure_files fs
          (validate_scenario_separation fs results db scenario_type) db scenario_type)
       db scenario_type"

fun validate_databases ::
  "repo \<Rightarrow> (string \<times> string \<times> string \<times> string) list \<Rightarrow> ValidationResult list
     \<Rightarrow> error + ValidationResult list" where
  "validate_databases fs [] results = Inr results"
| "validate_databases fs ((db, scenario_str, criticality, owner) # rest) results =
     (case ScenarioType_of scenario_str of
        Inl e \<Rightarrow> Inl e
      | Inr scenario_type \<Rightarrow>
          validate_databases fs rest (validate_database fs results db scenario_type))"

text \<open>\<^verbatim>\<open>validate_all_scenarios\<close> on a fresh validator: the value returned, together with
  \<^verbatim>\<open>self.results\<close> as the run leaves it.\<close>

definition validate_all_scenarios :: "repo \<Rightarrow> error + (bool \<times> ValidationResult list)" where
  "validate_all_scenarios fs =
     (case validate_databases fs scenarios [] of
        Inl e \<Rightarrow> Inl e
      | Inr results \<Rightarrow>
          (case generate_report results of
             Inl e \<Rightarrow> Inl e
           | Inr success \<Rightarrow> Inr (success, results)))"

definition exit_code :: "bool \<Rightarrow> int" where
  "exit_code success = (if success then 0 else 1)"

definition main :: "repo \<Rightarrow> error + int" where
  "main fs =
     (case validate_all_scenarios fs of
        Inl e \<Rightarrow> Inl e
      | Inr (success, _) \<Rightarrow> Inr (exit_code success))"

section \<open>The earlier version of the validator (\<^verbatim>\<open>src/script_11.py\<close>)\<close>

text \<open>
  The earlier script shares \<^verbatim>\<open>ValidationResult\<close> and \<^verbatim>\<open>_add_result\<close> with the later one.
  Its checks read files outside any \<^verbatim>\<open>try\<close> (monitoring apart), so a failed read ends the
  run with the exception: these checks return \<open>error + _\<close>.
\<close>

record ScenarioDefinition =
  name :: string
  scenario_type :: ScenarioType
  criticality :: string
  owner_email :: string
  description :: string

text \<open>The decimal text of a length, for \<^verbatim>\<open>f"Found in {len(found_references)} files"\<close>.\<close>

fun str_nat :: "nat \<Rightarrow> string" where
  "str_nat n =
     (if n < 10 then [''0123456789'' ! n]
      else str_nat (n div 10) @ [''0123456789'' ! (n mod 10)])"

declare str_nat.simps [simp del]

subsection \<open>\<^verbatim>\<open>_validate_terraform_configuration\<close>\<close>

definition terraform_files :: "string list" where
  "terraform_files =
     [''terraform/environments/dev/databases.tf'',
      ''terraform/environments/prod/critical_databases.tf'',
      ''terraform/modules/database/main.tf'']"

fun terraform_references ::
  "repo \<Rightarrow> string \<Rightarrow> string list \<Rightarrow> string list \<Rightarrow> error + string list" where
  "terraform_references fs db [] found = Inr found"
| "terraform_references fs db (tf_file # rest) found =
     (if path_exists fs tf_file
      then (case read_text fs tf_file of
              Inl e \<Rightarrow> Inl (ReadError e)
            | Inr content \<Rightarrow>
                terraform_references fs db rest
                  (if contains db content then found @ [tf_file] else found))
      else terraform_references fs db rest found)"

definition validate_terraform_configuration ::
  "repo \<Rightarrow> ValidationResult list \<Rightarrow> string \<Rightarrow> ScenarioDefinition
     \<Rightarrow> error + ValidationResult list" where
  "validate_terraform_configuration fs results db scenario_def =
     (case terraform_references fs db terraform_files [] of
        Inl e \<Rightarrow> Inl e
      | Inr found \<Rightarrow>
          Inr (if found \<noteq> []
               then add_result results db (scenario_type scenario_def) ''terraform_config''
                      ''PASS'' INFO ''Terraform configurations found''
                      [''Found in '' @ str_nat (length found) @ '' files''] found
               else add_result results db (scenario_type scenario_def) ''terraform_config''
                      ''FAIL'' CRITICAL ''No Terraform configurations found''
                      [''Database must have infrastructure definitions''] []))"

subsection \<open>\<^verbatim>\<open>_validate_logic_heavy_rules\<close>\<close>

text \<open>\<^verbatim>\<open>any(database in f.read_text() for f in files if f.exists())\<close>: stops at the first
  file that mentions the database, and raises where a read before it fails.\<close>

fun any_mentions :: "repo \<Rightarrow> string \<Rightarrow> string list \<Rightarrow> error + bool" where
  "any_mentions fs db [] = Inr False"
| "any_mentions fs db (f # rest) =
     (if path_exists fs f
      then (case read_text fs f of
              Inl e \<Rightarrow> Inl (ReadError e)
            | Inr content \<Rightarrow> if contains db content then Inr True else any_mentions fs db rest)
      else any_mentions fs db rest)"

definition validate_logic_heavy_rules ::
  "repo \<Rightarrow> ValidationResult list \<Rightarrow> string \<Rightarrow> ScenarioDefinition
     \<Rightarrow> error + ValidationResult list" where
  "validate_logic_heavy_rules fs results db scenario_def =
     (case any_mentions fs db (glob fs ''src/business/**/*.py'') of
        Inl e \<Rightarrow> Inl e
      | Inr has_business \<Rightarrow>
          (case any_mentions fs db (glob fs ''src/analytics/**/*.py'') of
             Inl e \<Rightarrow> Inl e
           | Inr has_analytics \<Rightarrow>
               Inr (if has_business \<or> has_analytics
                    then (let components =
                                (if has_business then [''business logic''] else []) @
                                (if has_analytics then [''analytics''] else [])
                          in add_result results db (scenario_type scenario_def)
                               ''logic_heavy_complexity'' ''PASS'' INFO
                               ''Logic-heavy scenario properly implemented''
                               [''Has: '' @ repr_list components] [])
                    else add_result results db (scenario_type scenario_def)
                           ''logic_heavy_complexity'' ''FAIL'' CRITICAL
                           ''Logic-heavy scenario lacks complex logic''
                           [''Missing business logic and analytics''] [])))"

subsection \<open>\<^verbatim>\<open>_validate_monitoring_configuration\<close> and \<^verbatim>\<open>_validate_documentation\<close>\<close>



subsection \<open>\<^verbatim>\<open>_generate_validation_report\<close>\<close>





definition generate_validation_report :: "ValidationResult list \<Rightarrow> error + bool" where
  "generate_validation_report results =
     (case count_statuses [(''PASS'', 0), (''FAIL'', 0), (''WARNING'', 0)] results of
        Inl e \<Rightarrow> Inl e
      | Inr status_counts \<Rightarrow>
          (case overall_compliance status_counts results of
             Inl e \<Rightarrow> Inl e
           | Inr _ \<Rightarrow>
               if critical_failures results \<noteq> [] then Inr False
               else (case map_of status_counts ''FAIL'' of
                       None \<Rightarrow> Inl KeyError
                     | Some n \<Rightarrow> if n > 0 then Inr True else Inr True)))"

section \<open>Notions of the specification\<close>

text \<open>An artifact references a database when it can be read and its text contains the
  database's name.\<close>

definition mentions :: "repo \<Rightarrow> string \<Rightarrow> string \<Rightarrow> bool" where
  "mentions fs db f = (case read_text fs f of Inl _ \<Rightarrow> False | Inr content \<Rightarrow> contains db content)"

text \<open>The evidence of a category of application code: the artifacts under the category's
  directory that reference the database, in the order of enumeration.\<close>

definition evidence :: "repo \<Rightarrow> string \<Rightarrow> string \<Rightarrow> string list" where
  "evidence fs db c =
     concat (map (\<lambda>(dir_path, code_type).
                    if code_type = c \<and> path_exists fs dir_path
                    then filter (mentions fs db) (rglob_py fs dir_path) else [])
               app_code_files)"

text \<open>The infrastructure evidence: the Terraform files matching one of the patterns that
  reference the database.\<close>

definition infrastructure_evidence :: "repo \<Rightarrow> string \<Rightarrow> string list" where
  "infrastructure_evidence fs db =
     concat (map (\<lambda>pattern. filter (mentions fs db) (glob fs pattern)) terraform_patterns)"

text \<open>The categories a scenario forbids, as the specification lists them.\<close>

fun forbidden_categories :: "ScenarioType \<Rightarrow> string list" where
  "forbidden_categories CONFIG_ONLY =
     [''configuration'', ''service_layer'', ''business_logic'', ''analytics'']"
| "forbidden_categories MIXED = [''business_logic'', ''analytics'']"
| "forbidden_categories LOGIC_HEAVY = []"

text \<open>The status strings of a well-formed result.\<close>

definition valid_status :: "string \<Rightarrow> bool" where
  "valid_status s = (s = ''PASS'' \<or> s = ''FAIL'' \<or> s = ''WARNING'')"

text \<open>A critical failure: status FAIL together with severity CRITICAL.\<close>

definition critical_failure :: "ValidationResult \<Rightarrow> bool" where
  "critical_failure r = (status r = ''FAIL'' \<and> violation_type r = CRITICAL)"

text \<open>The same corpus with the unreadable Python files taken out of every enumeration.\<close>

definition without_unreadable :: "repo \<Rightarrow> repo" where
  "without_unreadable fs =
     fs\<lparr>rglob_py := (\<lambda>d. filter (\<lambda>f. \<not> isl (read_text fs f)) (rglob_py fs d)),
        glob := (\<lambda>pat. if pat \<in> set terraform_patterns
                        then filter (\<lambda>f. \<not> isl (read_text fs f)) (glob fs pat)
                        else glob fs pat)\<rparr>"

text \<open>The table of databases with the scenarios as values of the enumeration, and the
  results a run collects: the results of each database, one database after the other.\<close>

definition database_scenarios :: "(string \<times> ScenarioType) list" where
  "database_scenarios =
     [(''periodic_table'', CONFIG_ONLY), (''world_happiness'', CONFIG_ONLY),
      (''titanic'', CONFIG_ONLY), (''pagila'', MIXED), (''chinook'', MIXED),
      (''netflix'', MIXED), (''employees'', LOGIC_HEAVY), (''lego'', LOGIC_HEAVY),
      (''postgres_air'', LOGIC_HEAVY)]"

definition run_results :: "repo \<Rightarrow> ValidationResult list" where
  "run_results fs =
     concat (map (\<lambda>(db, sc). validate_database fs [] db sc) database_scenarios)"

text \<open>The name of the separation check of each scenario.\<close>

fun separation_check :: "ScenarioType \<Rightarrow> string" where
  "separation_check CONFIG_ONLY = ''config_only_purity''"
| "separation_check MIXED = ''mixed_scenario_rules''"
| "separation_check LOGIC_HEAVY = ''logic_heavy_complexity''"


section \<open>Sample corpora\<close>

text \<open>A repository with nothing in it.\<close>

definition empty_repo :: repo where
  "empty_repo =
     \<lparr>path_exists = (\<lambda>_. False), rglob_py = (\<lambda>_. []), glob = (\<lambda>_. []),
      read_text = (\<lambda>_. Inl ''No such file or directory''), required_as_written = True\<rparr>"

text \<open>A small repository shaped like this one: a service, a payroll system and an
  analytics module, one Terraform file, Helm values for \<^verbatim>\<open>pagila\<close> and three monitors,
  one of them unreadable. The payroll system mentions \<^verbatim>\<open>titanic\<close>, a configuration-only
  database.\<close>

definition sample_files :: "(string \<times> (string + string)) list" where
  "sample_files =
     [(''src/services/database_service.py'', Inr ''connect pagila chinook netflix''),
      (''src/services/cache.py'', Inr ''cache for pagila''),
      (''src/business/employee_payroll_system.py'', Inr ''employees payroll, titanic''),
      (''src/business/legacy.py'', Inl ''Permission denied''),
      (''src/analytics/lego_business_intelligence.py'', Inr ''lego analytics''),
      (''terraform_dev_databases.tf'', Inr ''pagila employees titanic lego''),
      (''datadog_monitor_pagila.yaml'',
         Inr ''scenario: mixed, database_name: pagila, alert threshold: 90''),
      (''datadog_monitor_lego.yaml'', Inr ''database_name: lego''),
      (''datadog_monitor_employees.yaml'', Inl ''Permission denied''),
      (''docs/database-ownership.md'',
         Inr ''pagila: development-team@company.com, lego: nobody'')]"

definition sample_repo :: repo where
  "sample_repo =
     \<lparr>path_exists = (\<lambda>p. p \<in> set [''src/services/'', ''src/business/'', ''src/analytics/'',
                                      ''docs/database-ownership.md'']),
      rglob_py = (\<lambda>d.
         if d = ''src/services/''
         then [''src/services/database_service.py'', ''src/services/cache.py'']
         else if d = ''src/business/''
         then [''src/business/employee_payroll_system.py'', ''src/business/legacy.py'']
         else if d = ''src/analytics/''
         then [''src/analytics/lego_business_intelligence.py'']
         else []),
      glob = (\<lambda>pat.
         if pat = ''terraform_*_databases.tf'' then [''terraform_dev_databases.tf'']
         else if pat = ''helm_values_pagila.yaml'' then [''helm_values_pagila.yaml'']
         else if pat = ''datadog_monitor_pagila.yaml'' then [''datadog_monitor_pagila.yaml'']
         else if pat = ''datadog_monitor_lego.yaml'' then [''datadog_monitor_lego.yaml'']
         else if pat = ''datadog_monitor_employees.yaml''
         then [''datadog_monitor_employees.yaml'']
         else []),
      read_text = (\<lambda>p. case map_of sample_files p of
                           None \<Rightarrow> Inl ''No such file or directory''
                         | Some r \<Rightarrow> r),
      required_as_written = True\<rparr>"

text \<open>A repository whose only Python file cannot be read, and the same repository
  without that file.\<close>

definition unreadable_repo :: repo where
  "unreadable_repo =
     \<lparr>path_exists = (\<lambda>p. p = ''src/business/''),
      rglob_py = (\<lambda>d. if d = ''src/business/''
                       then [''src/business/employee_payroll_system.py''] else []),
      glob = (\<lambda>_. []),
      read_text = (\<lambda>_. Inl ''Permission denied''),
      required_as_written = True\<rparr>"

definition bare_repo :: repo where
  "bare_repo = unreadable_repo\<lparr>rglob_py := (\<lambda>_. [])\<rparr>"



section \<open>Properties\<close>

subsection \<open>The report\<close>


lemma count_statuses_total:
  "\<forall>r\<in>set rs. status r \<in> fst ` set sc \<Longrightarrow>
   \<exists>sc'. count_statuses sc rs = Inr sc' \<and> fst ` set sc' = fst ` set sc"
proof (induction rs arbitrary: sc)
  case Nil
  then show ?case by simp
next
  case (Cons r rs)
  from Cons.prems have key: "status r \<in> fst ` set sc" by simp
  then obtain n where n: "map_of sc (status r) = Some n"
    by (cases "map_of sc (status r)") (auto simp: map_of_eq_None_iff)
  have dom: "fst ` set (AList.update (status r) (n + 1) sc) = fst ` set sc"
    using key by (auto simp: dom_update)
  with Cons.prems have "\<forall>x\<in>set rs. status x \<in> fst ` set (AList.update (status r) (n + 1) sc)"
    by simp
  from Cons.IH [OF this] dom n show ?case by simp
qed

lemma count_statuses_KeyError:
  "\<exists>r\<in>set rs. status r \<notin> fst ` set sc \<Longrightarrow> count_statuses sc rs = Inl KeyError"
proof (induction rs arbitrary: sc)
  case Nil
  then show ?case by simp
next
  case (Cons r rs)
  show ?case
  proof (cases "map_of sc (status r)")
    case None
    then show ?thesis by simp
  next
    case (Some n)
    then have key: "status r \<in> fst ` set sc"
      by (metis map_of_eq_None_iff option.distinct(1))
    have dom: "fst ` set (AList.update (status r) (n + 1) sc) = fst ` set sc"
      using key by (auto simp: dom_update)
    from Cons.prems key have "\<exists>x\<in>set rs. status x \<notin> fst ` set sc" by auto
    with dom have "\<exists>x\<in>set rs. status x \<notin> fst ` set (AList.update (status r) (n + 1) sc)"
      by simp
    from Cons.IH [OF this] Some show ?thesis by simp
  qed
qed

lemma critical_failures_empty:
  "(critical_failures rs = []) = (\<forall>r\<in>set rs. \<not> critical_failure r)"
  by (simp add: critical_failures_def critical_failure_def filter_empty_conv)

lemma generate_report_valid:
  assumes "\<forall>r\<in>set rs. valid_status (status r)"
  shows "generate_report rs = Inr (\<forall>r\<in>set rs. \<not> critical_failure r)"
proof -
  let ?sc = "[(''PASS'', 0::nat), (''FAIL'', 0), (''WARNING'', 0)]"
  from assms have "\<forall>r\<in>set rs. status r \<in> fst ` set ?sc"
    by (auto simp: valid_status_def)
  from count_statuses_total [OF this] obtain sc' where
    sc': "count_statuses ?sc rs = Inr sc'" and dom: "fst ` set sc' = fst ` set ?sc"
    by blast
  from dom have "''PASS'' \<in> fst ` set sc'" by simp
  then obtain p where "map_of sc' ''PASS'' = Some p"
    by (cases "map_of sc' ''PASS''") (auto simp: map_of_eq_None_iff)
  then have "\<exists>x. overall_compliance sc' rs = Inr x"
    by (simp add: overall_compliance_def)
  with sc' show ?thesis
    by (auto simp: generate_report_def critical_failures_empty)
qed

lemma generate_report_invalid:
  assumes "\<exists>r\<in>set rs. \<not> valid_status (status r)"
  shows "generate_report rs = Inl KeyError"
proof -
  let ?sc = "[(''PASS'', 0::nat), (''FAIL'', 0), (''WARNING'', 0)]"
  from assms have "\<exists>r\<in>set rs. status r \<notin> fst ` set ?sc"
    by (auto simp: valid_status_def)
  from count_statuses_KeyError [OF this] show ?thesis
    by (simp add: generate_report_def)
qed

subsection \<open>Every check appends its results\<close>

lemma separation_rules_appends:
  "\<exists>r. separation_rules fs found rs db sc = rs @ [r] \<and> database r = db \<and> scenario r = sc \<and>
       valid_status (status r) \<and>
       check_name r = separation_check sc"
  by (cases sc) (simp_all add: separation_rules_def add_result_def valid_status_def Let_def)

lemma validate_infrastructure_files_appends:
  "\<exists>r h. validate_infrastructure_files fs rs db sc = rs @ [r, h] \<and>
       database r = db \<and> scenario r = sc \<and> valid_status (status r) \<and>
       check_name r = ''terraform_config'' \<and>
       database h = db \<and> scenario h = sc \<and> valid_status (status h) \<and>
       check_name h = ''helm_config''"
  by (simp add: validate_infrastructure_files_def add_result_def valid_status_def Let_def)

lemma validate_monitoring_setup_appends:
  "\<exists>r. validate_monitoring_setup fs rs db sc = rs @ [r] \<and> database r = db \<and> scenario r = sc \<and>
       valid_status (status r) \<and> check_name r = ''monitoring_config''"
  by (simp add: validate_monitoring_setup_def add_result_def valid_status_def Let_def
      split: list.splits sum.splits)

lemma validate_database_appends:
  "\<exists>r1 r2 r3 r4.
     validate_database fs rs db sc = rs @ [r1, r2, r3, r4] \<and>
     check_name r1 = separation_check sc \<and>
     check_name r2 = ''terraform_config'' \<and>
     check_name r3 = ''helm_config'' \<and>
     check_name r4 = ''monitoring_config'' \<and>
     list_all (\<lambda>r. database r = db \<and> scenario r = sc \<and> valid_status (status r))
       [r1, r2, r3, r4]"
proof -
  obtain r1 where r1: "validate_scenario_separation fs rs db sc = rs @ [r1]"
      "database r1 = db" "scenario r1 = sc" "valid_status (status r1)"
      "check_name r1 = separation_check sc"
    unfolding validate_scenario_separation_def
    using separation_rules_appends [of fs "found_references fs db" rs db sc] by blast
  obtain r2 r3 where r23:
      "validate_infrastructure_files fs (rs @ [r1]) db sc = (rs @ [r1]) @ [r2, r3]"
      "database r2 = db" "scenario r2 = sc" "valid_status (status r2)"
      "check_name r2 = ''terraform_config''"
      "database r3 = db" "scenario r3 = sc" "valid_status (status r3)"
      "check_name r3 = ''helm_config''"
    using validate_infrastructure_files_appends [of fs "rs @ [r1]" db sc] by blast
  obtain r4 where r4:
      "validate_monitoring_setup fs (rs @ [r1, r2, r3]) db sc = (rs @ [r1, r2, r3]) @ [r4]"
      "database r4 = db" "scenario r4 = sc" "valid_status (status r4)"
      "check_name r4 = ''monitoring_config''"
    using validate_monitoring_setup_appends [of fs "rs @ [r1, r2, r3]" db sc] by blast
  have "validate_database fs rs db sc = rs @ [r1, r2, r3, r4]"
    using r1(1) r23(1) r4(1) by (simp add: validate_database_def)
  with r1 r23 r4 show ?thesis by simp
qed

lemma validate_database_prefix:
  "validate_database fs rs db sc = rs @ validate_database fs [] db sc"
proof -
  have sep: "\<And>rs. separation_rules fs (found_references fs db) rs db sc =
         rs @ separation_rules fs (found_references fs db) [] db sc"
    by (cases sc) (simp_all add: separation_rules_def add_result_def Let_def)
  have inf: "\<And>rs. validate_infrastructure_files fs rs db sc =
         rs @ validate_infrastructure_files fs [] db sc"
    by (simp add: validate_infrastructure_files_def add_result_def Let_def)
  have mon: "\<And>rs. validate_monitoring_setup fs rs db sc =
         rs @ validate_monitoring_setup fs [] db sc"
    by (simp add: validate_monitoring_setup_def add_result_def Let_def
        split: list.splits sum.splits)
  show ?thesis
    unfolding validate_database_def validate_scenario_separation_def
    by (metis sep inf mon append.assoc)
qed

subsection \<open>The evidence the scan collects\<close>


lemma record_reference_map_of:
  "map_of (record_reference found c f) =
     (map_of found)(c \<mapsto> (case map_of found c of None \<Rightarrow> [] | Some xs \<Rightarrow> xs) @ [f])"
  by (cases "map_of found c") (simp_all add: record_reference_def update_conv')

lemma scan_files_map_of:
  "map_of (scan_files fs db c files found) c' =
     (if c' = c \<and> filter (mentions fs db) files \<noteq> []
      then Some ((case map_of found c of None \<Rightarrow> [] | Some xs \<Rightarrow> xs) @
                 filter (mentions fs db) files)
      else map_of found c')"
proof (induction files arbitrary: found)
  case Nil
  then show ?case by simp
next
  case (Cons f files)
  show ?case
  proof (cases "mentions fs db f")
    case True
    then obtain content where "read_text fs f = Inr content" "contains db content"
      by (auto simp: mentions_def split: sum.splits)
    with True Cons.IH [of "record_reference found c f"] show ?thesis
      by (simp add: record_reference_map_of)
  next
    case False
    then have "scan_files fs db c (f # files) found = scan_files fs db c files found"
      by (auto simp: mentions_def split: sum.splits)
    with False Cons.IH [of found] show ?thesis by simp
  qed
qed

lemma scan_dirs_map_of:
  "map_of (scan_dirs fs db ds found) c =
     (let ev = concat (map (\<lambda>(dir_path, code_type).
                    if code_type = c \<and> path_exists fs dir_path
                    then filter (mentions fs db) (rglob_py fs dir_path) else []) ds)
      in if ev = [] then map_of found c
         else Some ((case map_of found c of None \<Rightarrow> [] | Some xs \<Rightarrow> xs) @ ev))"
proof (induction ds arbitrary: found)
  case Nil
  then show ?case by simp
next
  case (Cons d ds)
  obtain dir_path code_type where d: "d = (dir_path, code_type)" by (cases d)
  show ?case
    unfolding d scan_dirs.simps Cons.IH
    by (simp add: scan_files_map_of Let_def)
qed

lemma found_references_lookup:
  "map_of (found_references fs db) c =
     (if evidence fs db c = [] then None else Some (evidence fs db c))"
  by (simp add: found_references_def evidence_def scan_dirs_map_of Let_def)


lemma evidence_category:
  "evidence fs db c \<noteq> [] \<Longrightarrow> c \<in> set (map snd app_code_files)"
  by (auto simp: evidence_def app_code_files_def split: if_splits)

lemma evidence_of_directory:
  "(dir_path, c) \<in> set app_code_files \<Longrightarrow>
   evidence fs db c =
     (if path_exists fs dir_path then filter (mentions fs db) (rglob_py fs dir_path) else [])"
  by (auto simp: evidence_def app_code_files_def)

subsection \<open>The run\<close>


lemma validate_databases_append:
  "validate_databases fs tbl rs =
     (case validate_databases fs tbl [] of Inl e \<Rightarrow> Inl e | Inr rs' \<Rightarrow> Inr (rs @ rs'))"
proof (induction tbl arbitrary: rs)
  case Nil
  then show ?case by simp
next
  case (Cons x tbl)
  obtain db s c ow where x: "x = (db, s, c, ow)" by (cases x)
  show ?case
  proof (cases "ScenarioType_of s")
    case (Inl e)
    with x show ?thesis by simp
  next
    case (Inr sc)
    have "validate_databases fs tbl (validate_database fs rs db sc) =
       (case validate_databases fs tbl [] of Inl e \<Rightarrow> Inl e
        | Inr rs' \<Rightarrow> Inr (validate_database fs rs db sc @ rs'))"
      by (rule Cons.IH)
    moreover have "validate_databases fs tbl (validate_database fs [] db sc) =
       (case validate_databases fs tbl [] of Inl e \<Rightarrow> Inl e
        | Inr rs' \<Rightarrow> Inr (validate_database fs [] db sc @ rs'))"
      by (rule Cons.IH)
    moreover have "validate_database fs rs db sc = rs @ validate_database fs [] db sc"
      by (rule validate_database_prefix)
    ultimately show ?thesis
      using x Inr by (simp split: sum.splits)
  qed
qed

lemma validate_databases_step:
  "validate_databases fs ((db, s, c, ow) # tbl) [] =
     (case ScenarioType_of s of
        Inl e \<Rightarrow> Inl e
      | Inr sc \<Rightarrow>
          (case validate_databases fs tbl [] of
             Inl e \<Rightarrow> Inl e
           | Inr rs' \<Rightarrow> Inr (validate_database fs [] db sc @ rs')))"
proof (cases "ScenarioType_of s")
  case (Inl e)
  then show ?thesis by simp
next
  case (Inr sc)
  have "validate_databases fs tbl (validate_database fs [] db sc) =
     (case validate_databases fs tbl [] of Inl e \<Rightarrow> Inl e
      | Inr rs' \<Rightarrow> Inr (validate_database fs [] db sc @ rs'))"
    by (rule validate_databases_append)
  with Inr show ?thesis by simp
qed

lemma validate_databases_scenarios:
  "validate_databases fs scenarios [] = Inr (run_results fs)"
  unfolding scenarios_def run_results_def database_scenarios_def
  by (simp only: validate_databases_step validate_databases.simps(1))
     (simp add: ScenarioType_of_def)

lemma run_results_valid: "\<forall>r\<in>set (run_results fs). valid_status (status r)"
proof -
  have "\<forall>r\<in>set (validate_database fs [] db sc). valid_status (status r)" for db sc
    using validate_database_appends [of fs "[]" db sc] by auto
  then show ?thesis by (auto simp: run_results_def)
qed

lemma validate_all_scenarios_run:
  "validate_all_scenarios fs =
     Inr (\<forall>r\<in>set (run_results fs). \<not> critical_failure r, run_results fs)"
  by (simp add: validate_all_scenarios_def validate_databases_scenarios
      generate_report_valid [OF run_results_valid])



subsection \<open>The Terraform scan\<close>

lemma terraform_in_files_iff:
  "terraform_in_files fs db files = (filter (mentions fs db) files \<noteq> [])"
  by (induction files) (auto simp: mentions_def split: sum.splits)

lemma terraform_in_patterns_iff:
  "terraform_in_patterns fs db pats =
     (concat (map (\<lambda>pattern. filter (mentions fs db) (glob fs pattern)) pats) \<noteq> [])"
  by (induction pats) (auto simp: terraform_in_files_iff)

lemma terraform_found_iff:
  "terraform_found fs db = (infrastructure_evidence fs db \<noteq> [])"
  by (simp add: terraform_found_def infrastructure_evidence_def terraform_in_patterns_iff)

subsection \<open>The monitor file\<close>



subsection \<open>Unreadable files\<close>

lemma without_unreadable_fields:
  "read_text (without_unreadable fs) = read_text fs"
  "path_exists (without_unreadable fs) = path_exists fs"
  "required_as_written (without_unreadable fs) = required_as_written fs"
  "rglob_py (without_unreadable fs) d =
     filter (\<lambda>f. \<not> isl (read_text fs f)) (rglob_py fs d)"
  by (simp_all add: without_unreadable_def)

lemma scan_files_skips_unreadable:
  "scan_files (without_unreadable fs) db c
     (filter (\<lambda>f. \<not> isl (read_text fs f)) files) found =
   scan_files fs db c files found"
proof (induction files arbitrary: found)
  case Nil
  then show ?case by simp
next
  case (Cons f files)
  show ?case
  proof (cases "read_text fs f")
    case (Inl e)
    with Cons.IH show ?thesis by simp
  next
    case (Inr content)
    with Cons.IH show ?thesis by (simp add: without_unreadable_fields)
  qed
qed

lemma scan_dirs_skips_unreadable:
  "scan_dirs (without_unreadable fs) db ds found = scan_dirs fs db ds found"
proof (induction ds arbitrary: found)
  case Nil
  then show ?case by simp
next
  case (Cons d ds)
  obtain dir_path code_type where d: "d = (dir_path, code_type)" by (cases d)
  show ?case
    unfolding d scan_dirs.simps Cons.IH
    by (simp add: without_unreadable_fields scan_files_skips_unreadable)
qed

lemma separation_skips_unreadable:
  "validate_scenario_separation (without_unreadable fs) results db sc =
   validate_scenario_separation fs results db sc"
proof -
  have req: "required_types (without_unreadable fs) = required_types fs"
    by (simp add: required_types_def without_unreadable_fields)
  show ?thesis
    unfolding validate_scenario_separation_def found_references_def
      scan_dirs_skips_unreadable separation_rules_def req ..
qed

lemma mentions_without_unreadable:
  "mentions (without_unreadable fs) db = mentions fs db"
  by (rule ext) (simp add: mentions_def without_unreadable_fields)

lemma filter_mentions_readable:
  "(\<not> isl (read_text fs f) \<and> mentions fs db f) = mentions fs db f"
  by (auto simp: mentions_def split: sum.splits)

lemma infrastructure_skips_unreadable:
  "validate_infrastructure_files (without_unreadable fs) results db sc =
   validate_infrastructure_files fs results db sc"
proof -
  have g: "glob (without_unreadable fs) p = filter (\<lambda>f. \<not> isl (read_text fs f)) (glob fs p)"
    if "p \<in> set terraform_patterns" for p
    using that by (simp add: without_unreadable_def)
  have "map (\<lambda>p. filter (mentions (without_unreadable fs) db) (glob (without_unreadable fs) p))
          terraform_patterns =
        map (\<lambda>p. filter (mentions fs db) (glob fs p)) terraform_patterns"
    by (rule map_cong [OF refl])
       (simp add: g mentions_without_unreadable filter_mentions_readable)
  then have "infrastructure_evidence (without_unreadable fs) db = infrastructure_evidence fs db"
    by (simp only: infrastructure_evidence_def)
  then have t: "terraform_found (without_unreadable fs) db = terraform_found fs db"
    by (simp add: terraform_found_iff)
  have h: "glob (without_unreadable fs) (''helm_values_'' @ db @ ''.yaml'') =
      glob fs (''helm_values_'' @ db @ ''.yaml'')"
    by (simp add: without_unreadable_def terraform_patterns_def)
  show ?thesis
    unfolding validate_infrastructure_files_def t Let_def h ..
qed

lemma monitoring_unchanged:
  "validate_monitoring_setup (without_unreadable fs) results db sc =
   validate_monitoring_setup fs results db sc"
proof -
  have g: "glob (without_unreadable fs) (''datadog_monitor_'' @ db @ ''.yaml'') =
      glob fs (''datadog_monitor_'' @ db @ ''.yaml'')"
    by (simp add: without_unreadable_def terraform_patterns_def)
  show ?thesis
    unfolding validate_monitoring_setup_def Let_def g without_unreadable_fields ..
qed

lemma validate_database_skips_unreadable:
  "validate_database (without_unreadable fs) results db sc =
   validate_database fs results db sc"
  by (simp add: validate_database_def separation_skips_unreadable
      infrastructure_skips_unreadable monitoring_unchanged)

lemma run_results_skips_unreadable:
  "run_results (without_unreadable fs) = run_results fs"
  by (simp add: run_results_def validate_database_skips_unreadable)

subsection \<open>The checks of the earlier version\<close>

lemma terraform_references_result:
  "terraform_references fs db files found = Inr found' \<Longrightarrow>
   found' = found @ filter (\<lambda>f. path_exists fs f \<and> mentions fs db f) files"
proof (induction files arbitrary: found)
  case Nil
  then show ?case by simp
next
  case (Cons f files)
  show ?case
  proof (cases "path_exists fs f")
    case False
    with Cons.prems have "terraform_references fs db files found = Inr found'" by simp
    from Cons.IH [OF this] False show ?thesis by simp
  next
    case True
    with Cons.prems obtain content where c: "read_text fs f = Inr content"
      by (auto split: sum.splits)
    then have m: "mentions fs db f = contains db content" by (simp add: mentions_def)
    from Cons.prems True c
    have "terraform_references fs db files
            (if contains db content then found @ [f] else found) = Inr found'"
      by simp
    from Cons.IH [OF this] True m show ?thesis by simp
  qed
qed

lemma validate_terraform_configuration_result:
  assumes "validate_terraform_configuration fs results db sd = Inr results'"
  shows "\<exists>r. results' = results @ [r] \<and> check_name r = ''terraform_config'' \<and>
     file_references r = filter (\<lambda>f. path_exists fs f \<and> mentions fs db f) terraform_files \<and>
     status r = (if file_references r = [] then ''FAIL'' else ''PASS'') \<and>
     violation_type r = (if file_references r = [] then CRITICAL else INFO)"
proof (cases "terraform_references fs db terraform_files []")
  case (Inl e)
  with assms show ?thesis by (simp add: validate_terraform_configuration_def)
next
  case (Inr found)
  from terraform_references_result [OF Inr]
  have f: "filter (\<lambda>f. path_exists fs f \<and> mentions fs db f) terraform_files = found" by simp
  from assms [symmetric] Inr show ?thesis
    unfolding f
    by (cases "found = []")
       (simp_all add: validate_terraform_configuration_def add_result_def split del: if_split)
qed

lemma any_mentions_result:
  "any_mentions fs db files = Inr b \<Longrightarrow>
   b = list_ex (\<lambda>f. path_exists fs f \<and> mentions fs db f) files"
proof (induction files)
  case Nil
  then show ?case by simp
next
  case (Cons f files)
  show ?case
  proof (cases "path_exists fs f")
    case False
    with Cons show ?thesis by simp
  next
    case True
    with Cons.prems obtain content where c: "read_text fs f = Inr content"
      by (auto split: sum.splits)
    then have m: "mentions fs db f = contains db content" by (simp add: mentions_def)
    show ?thesis
    proof (cases "contains db content")
      case True
      with Cons.prems \<open>path_exists fs f\<close> c m show ?thesis by auto
    next
      case False
      with Cons.prems \<open>path_exists fs f\<close> c have "any_mentions fs db files = Inr b" by simp
      from Cons.IH [OF this] False m show ?thesis by simp
    qed
  qed
qed

text \<open>The check \<^verbatim>\<open>logic_heavy_complexity\<close> of the earlier version passes as soon as one
  of the two directories mentions the database, and fails critically when neither does.\<close>

lemma validate_logic_heavy_rules_result:
  assumes "validate_logic_heavy_rules fs results db sd = Inr results'"
  shows "\<exists>r. results' = results @ [r] \<and> check_name r = ''logic_heavy_complexity'' \<and>
     status r =
       (if list_ex (\<lambda>f. path_exists fs f \<and> mentions fs db f)
             (glob fs ''src/business/**/*.py'' @ glob fs ''src/analytics/**/*.py'')
        then ''PASS'' else ''FAIL'') \<and>
     violation_type r =
       (if list_ex (\<lambda>f. path_exists fs f \<and> mentions fs db f)
             (glob fs ''src/business/**/*.py'' @ glob fs ''src/analytics/**/*.py'')
        then INFO else CRITICAL)"
proof -
  from assms obtain hb ha where
    hb: "any_mentions fs db (glob fs ''src/business/**/*.py'') = Inr hb" and
    ha: "any_mentions fs db (glob fs ''src/analytics/**/*.py'') = Inr ha"
    by (auto simp: validate_logic_heavy_rules_def split: sum.splits)
  have e: "list_ex (\<lambda>f. path_exists fs f \<and> mentions fs db f)
             (glob fs ''src/business/**/*.py'' @ glob fs ''src/analytics/**/*.py'') =
           (hb \<or> ha)"
    using any_mentions_result [OF hb] any_mentions_result [OF ha] by simp
  from assms [symmetric] hb ha show ?thesis
    unfolding e
    by (cases "hb \<or> ha")
       (simp_all add: validate_logic_heavy_rules_def add_result_def Let_def
          split del: if_split)
qed

lemma generate_validation_report_valid:
  assumes "\<forall>r\<in>set rs. valid_status (status r)"
  shows "generate_validation_report rs = Inr (\<forall>r\<in>set rs. \<not> critical_failure r)"
proof -
  let ?sc = "[(''PASS'', 0::nat), (''FAIL'', 0), (''WARNING'', 0)]"
  from assms have "\<forall>r\<in>set rs. status r \<in> fst ` set ?sc"
    by (auto simp: valid_status_def)
  from count_statuses_total [OF this] obtain sc' where
    sc': "count_statuses ?sc rs = Inr sc'" and dom: "fst ` set sc' = fst ` set ?sc"
    by blast
  from dom have "''PASS'' \<in> fst ` set sc'" by simp
  then obtain p where "map_of sc' ''PASS'' = Some p"
    by (cases "map_of sc' ''PASS''") (auto simp: map_of_eq_None_iff)
  then have oc: "\<exists>x. overall_compliance sc' rs = Inr x"
    by (simp add: overall_compliance_def)
  from dom have "''FAIL'' \<in> fst ` set sc'" by simp
  then obtain n where "map_of sc' ''FAIL'' = Some n"
    by (cases "map_of sc' ''FAIL''") (auto simp: map_of_eq_None_iff)
  with sc' oc show ?thesis
    by (auto simp: generate_validation_report_def critical_failures_empty)
qed


section \<open>The claims\<close>



text \<open>
  Claim C2. If the scenario of a database forbids a category (CONFIG_ONLY forbids the four
  categories of application code, MIXED forbids business logic and analytics) and the
  evidence found for the database has files in that category, then the separation check
  appends one result with status FAIL and severity CRITICAL, whose file references
  include those files.
\<close>

theorem forbidden_category_fails:
  assumes "c \<in> set (forbidden_categories sc)"
    and "map_of (found_references fs db) c = Some files"
    and "files \<noteq> []"
  shows "\<exists>r. validate_scenario_separation fs results db sc = results @ [r] \<and>
             database r = db \<and> status r = ''FAIL'' \<and> violation_type r = CRITICAL \<and>
             set files \<subseteq> set (file_references r)"
proof (cases sc)
  case CONFIG_ONLY
  from assms(2) have mem: "(c, files) \<in> set (found_references fs db)"
    by (rule map_of_SomeD)
  then have "found_references fs db \<noteq> []" by auto
  moreover from mem have "set files \<subseteq> set (concat (map snd (found_references fs db)))"
    by force
  ultimately show ?thesis
    using CONFIG_ONLY
    by (simp add: validate_scenario_separation_def separation_rules_def add_result_def)
next
  case MIXED
  with assms(1) have c: "c \<in> set forbidden_types" by (simp add: forbidden_types_def)
  from assms(2) have mem: "(c, files) \<in> set (found_references fs db)"
    by (rule map_of_SomeD)
  then have key: "c \<in> set (map fst (found_references fs db))" by force
  let ?v = "filter (\<lambda>t. t \<in> set forbidden_types) (map fst (found_references fs db))"
  from c key have cv: "c \<in> set ?v" by simp
  then have ne: "?v \<noteq> []" by (auto simp: filter_empty_conv)
  from cv assms(2) have "set files \<subseteq> set (files_of (found_references fs db) ?v)"
    unfolding files_of_def by force
  with ne show ?thesis
    using MIXED
    by (simp add: validate_scenario_separation_def separation_rules_def add_result_def Let_def)
next
  case LOGIC_HEAVY
  with assms(1) show ?thesis by simp
qed

theorem forbidden_category_fails_witness:
  "''business_logic'' \<in> set (forbidden_categories CONFIG_ONLY) \<and>
   map_of (found_references sample_repo ''titanic'') ''business_logic'' =
     Some [''src/business/employee_payroll_system.py''] \<and>
   map (\<lambda>r. (check_name r, status r, violation_type r, file_references r))
     (validate_scenario_separation sample_repo [] ''titanic'' CONFIG_ONLY) =
     [(''config_only_purity'', ''FAIL'', CRITICAL, [''src/business/employee_payroll_system.py''])]"
proof -
  have a: "''business_logic'' \<in> set (forbidden_categories CONFIG_ONLY)" by simp
  have b: "map_of (found_references sample_repo ''titanic'') ''business_logic'' =
     Some [''src/business/employee_payroll_system.py'']" by code_simp
  have c: "[''src/business/employee_payroll_system.py''] \<noteq> []" by simp
  from forbidden_category_fails [OF a b c, of "[]"] obtain r where
    r: "validate_scenario_separation sample_repo [] ''titanic'' CONFIG_ONLY = [r]"
       "status r = ''FAIL''" "violation_type r = CRITICAL" by auto
  have d: "map (\<lambda>r. (check_name r, file_references r))
     (validate_scenario_separation sample_repo [] ''titanic'' CONFIG_ONLY) =
     [(''config_only_purity'', [''src/business/employee_payroll_system.py''])]" by code_simp
  from a b r d show ?thesis by simp
qed



text \<open>
  Claim C4, as stated, fails: the evidence is a dictionary that gets a key only when a
  first file of the category mentions the database, and the rules rely on that (the
  emptiness test of the dictionary, the membership tests of the keys). In an empty
  repository the category \<^verbatim>\<open>configuration\<close> is scanned and has no entry.
\<close>

theorem missing_category_counterexample:
  "''configuration'' \<in> set (map snd app_code_files) \<and>
   evidence empty_repo ''pagila'' ''configuration'' = [] \<and>
   map_of (found_references empty_repo ''pagila'') ''configuration'' = None \<and>
   map_of (found_references empty_repo ''pagila'') ''configuration'' \<noteq> Some []"
  by code_simp

text \<open>
  Claim C4, amended. The evidence has an entry for a category exactly when some file of
  that category mentions the database; a category with no such file is absent, no entry
  is ever the empty sequence, and every key is one of the scanned categories.
\<close>

theorem evidence_entries:
  "(map_of (found_references fs db) c = None) = (evidence fs db c = []) \<and>
   map_of (found_references fs db) c \<noteq> Some [] \<and>
   (map_of (found_references fs db) c \<noteq> None \<longrightarrow> c \<in> set (map snd app_code_files))"
  using evidence_category [of fs db c] by (simp add: found_references_lookup)

theorem evidence_entries_witness:
  "map_of (found_references sample_repo ''pagila'') ''service_layer'' \<noteq> None \<and>
   ''service_layer'' \<in> set (map snd app_code_files) \<and>
   evidence sample_repo ''pagila'' ''service_layer'' =
     [''src/services/database_service.py'', ''src/services/cache.py''] \<and>
   map_of (found_references sample_repo ''pagila'') ''analytics'' = None \<and>
   evidence sample_repo ''pagila'' ''analytics'' = []"
proof -
  have a: "map_of (found_references sample_repo ''pagila'') ''service_layer'' \<noteq> None"
    by code_simp
  have b: "map_of (found_references sample_repo ''pagila'') ''analytics'' = None"
    by code_simp
  have c: "evidence sample_repo ''pagila'' ''service_layer'' =
     [''src/services/database_service.py'', ''src/services/cache.py'']"
    by code_simp
  from evidence_entries [of sample_repo "''pagila''" "''service_layer''"] a
  have "''service_layer'' \<in> set (map snd app_code_files)" by blast
  moreover from evidence_entries [of sample_repo "''pagila''" "''analytics''"] b
  have "evidence sample_repo ''pagila'' ''analytics'' = []" by blast
  ultimately show ?thesis using a b c by blast
qed

text \<open>
  Claim C5. Whatever the scenario, the check \<^verbatim>\<open>terraform_config\<close> yields FAIL with
  severity CRITICAL when no Terraform file matching the patterns mentions the database,
  and PASS when one does.
\<close>

theorem infrastructure_presence:
  "\<exists>r h. validate_infrastructure_files fs results db sc = results @ [r, h] \<and>
      check_name r = ''terraform_config'' \<and> database r = db \<and> scenario r = sc \<and>
      (if infrastructure_evidence fs db = []
       then status r = ''FAIL'' \<and> violation_type r = CRITICAL
       else status r = ''PASS'' \<and> violation_type r = INFO)"
  by (simp add: validate_infrastructure_files_def terraform_found_iff add_result_def Let_def)

theorem infrastructure_presence_witness:
  "infrastructure_evidence sample_repo ''chinook'' = [] \<and>
   infrastructure_evidence sample_repo ''titanic'' = [''terraform_dev_databases.tf''] \<and>
   map (\<lambda>r. (check_name r, status r, violation_type r))
     (validate_infrastructure_files sample_repo [] ''chinook'' MIXED) =
     [(''terraform_config'', ''FAIL'', CRITICAL), (''helm_config'', ''WARNING'', WARNING)] \<and>
   map (\<lambda>r. (check_name r, status r, violation_type r))
     (validate_infrastructure_files sample_repo [] ''titanic'' CONFIG_ONLY) =
     [(''terraform_config'', ''PASS'', INFO), (''helm_config'', ''WARNING'', WARNING)]"
proof -
  have a: "infrastructure_evidence sample_repo ''chinook'' = []" by code_simp
  have b: "infrastructure_evidence sample_repo ''titanic'' = [''terraform_dev_databases.tf'']"
    by code_simp
  from infrastructure_presence [of sample_repo "[]" "''chinook''" MIXED] a
  obtain r h where r: "validate_infrastructure_files sample_repo [] ''chinook'' MIXED = [r, h]"
    "check_name r = ''terraform_config''" "status r = ''FAIL''" "violation_type r = CRITICAL"
    by auto
  have h: "map (\<lambda>r. (check_name r, status r, violation_type r))
     (tl (validate_infrastructure_files sample_repo [] ''chinook'' MIXED)) =
     [(''helm_config'', ''WARNING'', WARNING)]" by code_simp
  from infrastructure_presence [of sample_repo "[]" "''titanic''" CONFIG_ONLY] b
  obtain r' h' where r': "validate_infrastructure_files sample_repo [] ''titanic'' CONFIG_ONLY = [r', h']"
    "check_name r' = ''terraform_config''" "status r' = ''PASS''" "violation_type r' = INFO"
    by auto
  have h': "map (\<lambda>r. (check_name r, status r, violation_type r))
     (tl (validate_infrastructure_files sample_repo [] ''titanic'' CONFIG_ONLY)) =
     [(''helm_config'', ''WARNING'', WARNING)]" by code_simp
  from a b r h r' h' show ?thesis by simp
qed



text \<open>
  Claim C7, as stated, fails: nothing in the scan sorts. In the sample repository the
  service directory is enumerated with \<^verbatim>\<open>database_service.py\<close> before \<^verbatim>\<open>cache.py\<close>, and
  the evidence keeps that order.
\<close>

theorem unsorted_evidence_counterexample:
  "map_of (found_references sample_repo ''pagila'') ''service_layer'' =
     Some [''src/services/database_service.py'', ''src/services/cache.py''] \<and>
   \<not> sorted [''src/services/database_service.py'', ''src/services/cache.py'']"
  by code_simp

text \<open>
  Claim C7, amended. The files recorded under a category are the files of the category's
  directory that mention the database, in the order in which the directory was
  enumerated; they are sorted by path whenever the enumeration is.
\<close>

theorem evidence_in_enumeration_order:
  assumes "(dir_path, c) \<in> set app_code_files"
    and "map_of (found_references fs db) c = Some files"
  shows "files = filter (mentions fs db) (rglob_py fs dir_path) \<and>
         (sorted (rglob_py fs dir_path) \<longrightarrow> sorted files)"
proof -
  from assms(2) have "files = evidence fs db c" "evidence fs db c \<noteq> []"
    by (auto simp: found_references_lookup split: if_splits)
  with evidence_of_directory [OF assms(1), of fs db]
  have "files = filter (mentions fs db) (rglob_py fs dir_path)"
    by (auto split: if_splits)
  then show ?thesis by (simp add: sorted_wrt_filter)
qed

theorem evidence_in_enumeration_order_witness:
  "(''src/services/'', ''service_layer'') \<in> set app_code_files \<and>
   map_of (found_references sample_repo ''chinook'') ''service_layer'' =
     Some [''src/services/database_service.py''] \<and>
   rglob_py sample_repo ''src/services/'' =
     [''src/services/database_service.py'', ''src/services/cache.py''] \<and>
   filter (mentions sample_repo ''chinook'') (rglob_py sample_repo ''src/services/'') =
     [''src/services/database_service.py'']"
proof -
  have a: "(''src/services/'', ''service_layer'') \<in> set app_code_files"
    by (simp add: app_code_files_def)
  have b: "map_of (found_references sample_repo ''chinook'') ''service_layer'' =
     Some [''src/services/database_service.py'']"
    by code_simp
  have c: "rglob_py sample_repo ''src/services/'' =
     [''src/services/database_service.py'', ''src/services/cache.py'']"
    by (simp add: sample_repo_def)
  from evidence_in_enumeration_order [OF a b]
  have "filter (mentions sample_repo ''chinook'') (rglob_py sample_repo ''src/services/'') =
     [''src/services/database_service.py'']" by simp
  with a b c show ?thesis by blast
qed

text \<open>
  Claim C8, as stated, fails: the scan skips a file it cannot read and records nothing.
  A repository whose only file of business logic is unreadable gets, result for result,
  the run of the same repository without the file.
\<close>

theorem unreadable_file_counterexample:
  "path_exists unreadable_repo ''src/business/'' \<and>
   rglob_py unreadable_repo ''src/business/'' = [''src/business/employee_payroll_system.py''] \<and>
   read_text unreadable_repo ''src/business/employee_payroll_system.py'' =
     Inl ''Permission denied'' \<and>
   rglob_py bare_repo ''src/business/'' = [] \<and>
   validate_all_scenarios unreadable_repo = validate_all_scenarios bare_repo"
  by code_simp

text \<open>
  Claim C8, amended. A file of application code or a Terraform file that cannot be read is
  skipped without a record: the results of every database, and of the whole run, are
  those of the same corpus with the unreadable files left out. Only the monitoring check
  reports a failed read, of the monitor file, as a result with status WARNING and
  severity WARNING that carries the text of the error.
\<close>

theorem unreadable_files_leave_no_trace:
  "validate_database (without_unreadable fs) results db sc =
     validate_database fs results db sc \<and>
   validate_all_scenarios (without_unreadable fs) = validate_all_scenarios fs \<and>
   (\<forall>monitor_file rest e.
      glob fs (''datadog_monitor_'' @ db @ ''.yaml'') = monitor_file # rest \<and>
      read_text fs monitor_file = Inl e \<longrightarrow>
      (\<exists>r. validate_monitoring_setup fs results db sc = results @ [r] \<and>
           status r = ''WARNING'' \<and> violation_type r = WARNING \<and>
           message r = ''Error reading monitor config: '' @ e))"
  by (simp add: validate_database_skips_unreadable validate_all_scenarios_run
      run_results_skips_unreadable validate_monitoring_setup_def add_result_def)

theorem unreadable_files_leave_no_trace_witness:
  "rglob_py sample_repo ''src/business/'' =
     [''src/business/employee_payroll_system.py'', ''src/business/legacy.py''] \<and>
   read_text sample_repo ''src/business/legacy.py'' = Inl ''Permission denied'' \<and>
   rglob_py (without_unreadable sample_repo) ''src/business/'' =
     [''src/business/employee_payroll_system.py''] \<and>
   validate_database (without_unreadable sample_repo) [] ''employees'' LOGIC_HEAVY =
     validate_database sample_repo [] ''employees'' LOGIC_HEAVY \<and>
   glob sample_repo ''datadog_monitor_employees.yaml'' = [''datadog_monitor_employees.yaml''] \<and>
   read_text sample_repo ''datadog_monitor_employees.yaml'' = Inl ''Permission denied'' \<and>
   map (\<lambda>r. (status r, violation_type r, message r))
     (validate_monitoring_setup sample_repo [] ''employees'' LOGIC_HEAVY) =
     [(''WARNING'', WARNING, ''Error reading monitor config: Permission denied'')]"
proof -
  have a: "rglob_py sample_repo ''src/business/'' =
     [''src/business/employee_payroll_system.py'', ''src/business/legacy.py'']"
    by code_simp
  have b: "read_text sample_repo ''src/business/legacy.py'' = Inl ''Permission denied''"
    by code_simp
  have c: "rglob_py (without_unreadable sample_repo) ''src/business/'' =
     [''src/business/employee_payroll_system.py'']"
    by code_simp
  have g: "glob sample_repo (''datadog_monitor_'' @ ''employees'' @ ''.yaml'') =
     ''datadog_monitor_employees.yaml'' # []"
    by code_simp
  have e: "read_text sample_repo ''datadog_monitor_employees.yaml'' = Inl ''Permission denied''"
    by code_simp
  note t = unreadable_files_leave_no_trace [of sample_repo "[]" "''employees''" LOGIC_HEAVY]
  from t have d: "validate_database (without_unreadable sample_repo) [] ''employees'' LOGIC_HEAVY =
     validate_database sample_repo [] ''employees'' LOGIC_HEAVY" by blast
  from t g e obtain r where
    "validate_monitoring_setup sample_repo [] ''employees'' LOGIC_HEAVY = [] @ [r]"
    "status r = ''WARNING''" "violation_type r = WARNING"
    "message r = ''Error reading monitor config: '' @ ''Permission denied''"
    by blast
  then have m: "map (\<lambda>r. (status r, violation_type r, message r))
     (validate_monitoring_setup sample_repo [] ''employees'' LOGIC_HEAVY) =
     [(''WARNING'', WARNING, ''Error reading monitor config: Permission denied'')]"
    by simp
  from g have g': "glob sample_repo ''datadog_monitor_employees.yaml'' =
     [''datadog_monitor_employees.yaml'']" by simp
  from a b c d g' e m show ?thesis by blast
qed




end
